theory Spec2Isabelle
  imports Complex_Main "HOL-Library.Word" "HOL-Library.Sublist" "HOL-Library.Multiset"
begin

unbundle bit_operations_syntax

section \<open>Exceptions\<close>

text \<open>
  A Python exception is a value. The constructors name the places of the program (and of
  the numpy calls it makes) that raise:
  \<^item> \<open>ShapeError m n\<close>: the \<^verbatim>\<open>ValueError\<close> of \<^verbatim>\<open>np.dot\<close> on one-dimensional arrays of
    lengths \<open>m\<close> and \<open>n\<close> that differ;
  \<^item> \<open>BroadcastError m n\<close>: the \<^verbatim>\<open>ValueError\<close> of \<^verbatim>\<open>vec1 - vec2\<close> when the two shapes
    cannot be broadcast together;
  \<^item> \<open>BufferSizeError n\<close>: the \<^verbatim>\<open>ValueError\<close> of \<^verbatim>\<open>np.frombuffer\<close> on \<open>n\<close> bytes when
    \<open>n\<close> is not a multiple of the element size;
  \<^item> \<open>ExternalError msg\<close>: an \<^verbatim>\<open>Exception\<close> raised by a collaborator outside the program
    (the Ollama client behind \<^verbatim>\<open>get_embedding\<close>, the sqlite3 driver), with its message.
\<close>

datatype exn =
    ShapeError nat nat
  | BroadcastError nat nat
  | BufferSizeError nat
  | ExternalError string

section \<open>database.py: the store\<close>

text \<open>
  A float32 is its 32-bit pattern, a byte an 8-bit word, a numpy array of dtype float32 a
  list of patterns. Equality of patterns is the bit-for-bit equality of the floats.
\<close>

type_synonym byte = "8 word"
type_synonym float32 = "32 word"

text \<open>
  The three tables of \<^verbatim>\<open>_init_database\<close>. A table is the list of its rows in rowid
  order, which is the order a \<^verbatim>\<open>SELECT\<close> without \<^verbatim>\<open>ORDER BY\<close> scans. The timestamps are
  the strings that \<^verbatim>\<open>CURRENT_TIMESTAMP\<close> stored. The \<open>seq_\<close> fields are the
  \<^verbatim>\<open>sqlite_sequence\<close> entries that \<^verbatim>\<open>AUTOINCREMENT\<close> keeps: the largest rowid ever used
  in each table.
\<close>

record document =
  doc_id :: int
  file_name :: string
  uploaded_at :: string

record chunk =
  chunk_id :: int
  chunk_doc_id :: int
  chunk_text :: string
  embedding :: "byte list"

record chat =
  chat_id :: int
  user_input :: string
  bot_output :: string
  timestamp :: string

record store =
  documents :: "document list"
  chunks :: "chunk list"
  chats :: "chat list"
  seq_documents :: int
  seq_chunks :: int
  seq_chats :: int

definition empty_store :: store where
  "empty_store = \<lparr>documents = [], chunks = [], chats = [],
     seq_documents = 0, seq_chunks = 0, seq_chats = 0\<rparr>"

text \<open>
  \<^verbatim>\<open>INTEGER PRIMARY KEY AUTOINCREMENT\<close>: the new rowid is one more than the largest
  rowid that ever existed in the table.
\<close>

definition next_rowid :: "int \<Rightarrow> int list \<Rightarrow> int" where
  "next_rowid seq ids = fold max ids seq + 1"

subsection \<open>The binary encoding of an embedding\<close>

text \<open>
  \<^verbatim>\<open>embedding.tobytes()\<close> on a float32 array: the four bytes of each element, least
  significant first (the native order of the machines the program runs on), one element
  after the other, with no length prefix.
\<close>

definition float32_bytes :: "float32 \<Rightarrow> byte list" where
  "float32_bytes w =
     [ucast w, ucast (drop_bit 8 w), ucast (drop_bit 16 w), ucast (drop_bit 24 w)]"

definition tobytes :: "float32 list \<Rightarrow> byte list" where
  "tobytes v = concat (map float32_bytes v)"

definition float32_of_bytes :: "byte \<Rightarrow> byte \<Rightarrow> byte \<Rightarrow> byte \<Rightarrow> float32" where
  "float32_of_bytes b0 b1 b2 b3 =
     ucast b0 OR push_bit 8 (ucast b1) OR push_bit 16 (ucast b2) OR push_bit 24 (ucast b3)"

fun float32s_of_bytes :: "byte list \<Rightarrow> float32 list" where
  "float32s_of_bytes (b0 # b1 # b2 # b3 # bs) =
     float32_of_bytes b0 b1 b2 b3 # float32s_of_bytes bs"
| "float32s_of_bytes _ = []"

text \<open>
  \<^verbatim>\<open>np.frombuffer(embedding_bytes, dtype=np.float32)\<close>: raises when the buffer is not a
  whole number of elements.
\<close>

definition frombuffer :: "byte list \<Rightarrow> exn + float32 list" where
  "frombuffer bs =
     (if length bs mod 4 \<noteq> 0 then Inl (BufferSizeError (length bs))
      else Inr (float32s_of_bytes bs))"

subsection \<open>Operations\<close>

text \<open>
  \<^verbatim>\<open>add_chunk\<close>: one \<^verbatim>\<open>INSERT\<close>, committed. The program never switches on sqlite's
  enforcement of foreign keys (no \<^verbatim>\<open>PRAGMA foreign_keys\<close>), so the insert does not look
  at the documents table.
\<close>

definition add_chunk :: "store \<Rightarrow> int \<Rightarrow> string \<Rightarrow> float32 list \<Rightarrow> store" where
  "add_chunk s d t v =
     (let embedding_bytes = tobytes v;
          new_id = next_rowid (seq_chunks s) (map chunk_id (chunks s))
      in s\<lparr>chunks := chunks s @
              [\<lparr>chunk_id = new_id, chunk_doc_id = d, chunk_text = t, embedding = embedding_bytes\<rparr>],
            seq_chunks := new_id\<rparr>)"

text \<open>
  The loop of \<^verbatim>\<open>get_all_chunks\<close> and \<^verbatim>\<open>get_document_chunks\<close> over the fetched rows: each
  blob is decoded in turn, and the first blob that does not decode raises.
\<close>

fun decode_rows :: "chunk list \<Rightarrow> exn + (int \<times> string \<times> float32 list) list" where
  "decode_rows [] = Inr []"
| "decode_rows (r # rs) =
     (case frombuffer (embedding r) of
        Inl e \<Rightarrow> Inl e
      | Inr v \<Rightarrow>
          (case decode_rows rs of
             Inl e \<Rightarrow> Inl e
           | Inr cs \<Rightarrow> Inr ((chunk_id r, chunk_text r, v) # cs)))"

definition get_all_chunks :: "store \<Rightarrow> exn + (int \<times> string \<times> float32 list) list" where
  "get_all_chunks s = decode_rows (chunks s)"

definition get_document_chunks ::
  "store \<Rightarrow> int \<Rightarrow> exn + (int \<times> string \<times> float32 list) list" where
  "get_document_chunks s d = decode_rows (filter (\<lambda>r. chunk_doc_id r = d) (chunks s))"

text \<open>
  \<^verbatim>\<open>delete_document\<close>: two \<^verbatim>\<open>DELETE\<close> statements on one connection, the chunks first,
  then one commit. Each statement is a step on the store; a reader only ever sees the
  store before the first or after the second, since the commit publishes both.
\<close>

definition delete_chunks_of :: "int \<Rightarrow> store \<Rightarrow> store" where
  "delete_chunks_of d s = s\<lparr>chunks := filter (\<lambda>r. chunk_doc_id r \<noteq> d) (chunks s)\<rparr>"

definition delete_document_row :: "int \<Rightarrow> store \<Rightarrow> store" where
  "delete_document_row d s = s\<lparr>documents := filter (\<lambda>r. doc_id r \<noteq> d) (documents s)\<rparr>"

definition delete_document :: "store \<Rightarrow> int \<Rightarrow> store" where
  "delete_document s d = delete_document_row d (delete_chunks_of d s)"

section \<open>embeddings.py: the scoring functions\<close>

text \<open>
  An embedding as the scoring functions see it: the list of the numbers its floats denote.
  Arithmetic is that of the reals: rounding, overflow and NaN of the float32 operations are
  outside this model.
\<close>

type_synonym ndarray = "real list"

text \<open>\<^verbatim>\<open>np.dot\<close> on two one-dimensional arrays: their lengths must agree.\<close>

definition np_dot :: "ndarray \<Rightarrow> ndarray \<Rightarrow> exn + real" where
  "np_dot a b =
     (if length a \<noteq> length b then Inl (ShapeError (length a) (length b))
      else Inr (sum_list (map (\<lambda>(x, y). x * y) (zip a b))))"

text \<open>\<^verbatim>\<open>np.linalg.norm\<close> on a one-dimensional array: the root of the sum of squares.\<close>

definition np_norm :: "ndarray \<Rightarrow> real" where
  "np_norm a = sqrt (sum_list (map (\<lambda>x. x * x) a))"

text \<open>
  \<^verbatim>\<open>vec1 - vec2\<close> with numpy's broadcasting: equal lengths subtract element by element,
  an array of length one is stretched over the other, anything else raises.
\<close>

definition np_sub :: "ndarray \<Rightarrow> ndarray \<Rightarrow> exn + ndarray" where
  "np_sub a b =
     (if length a = length b then Inr (map (\<lambda>(x, y). x - y) (zip a b))
      else if length a = 1 then Inr (map (\<lambda>y. hd a - y) b)
      else if length b = 1 then Inr (map (\<lambda>x. x - hd b) a)
      else Inl (BroadcastError (length a) (length b)))"

definition cosine_similarity :: "ndarray \<Rightarrow> ndarray \<Rightarrow> exn + real" where
  "cosine_similarity vec1 vec2 =
     (case np_dot vec1 vec2 of
        Inl e \<Rightarrow> Inl e
      | Inr dot_product \<Rightarrow>
          (let norm1 = np_norm vec1; norm2 = np_norm vec2
           in if norm1 = 0 \<or> norm2 = 0 then Inr 0
              else Inr (dot_product / (norm1 * norm2))))"

definition l2_distance :: "ndarray \<Rightarrow> ndarray \<Rightarrow> exn + real" where
  "l2_distance vec1 vec2 =
     (case np_sub vec1 vec2 of Inl e \<Rightarrow> Inl e | Inr d \<Rightarrow> Inr (np_norm d))"



section \<open>retriever.py\<close>

text \<open>
  What a \<^verbatim>\<open>Retriever\<close> holds: its embedding manager and its database manager, each seen
  through the one method the retrieval operations call. \<open>'w\<close> is the state of everything
  outside the retriever (the Ollama server, the database file): a call may change it, and
  a second call may answer differently from the first. \<open>db_get_all_chunks\<close> is
  \<^verbatim>\<open>self.db_manager.get_all_chunks()\<close> with every float read as the number it denotes.
\<close>

type_synonym chunk_row = "int \<times> string \<times> ndarray"
type_synonym scored = "int \<times> string \<times> real"

record 'w retriever =
  em_get_embedding :: "string \<Rightarrow> 'w \<Rightarrow> (exn + ndarray) \<times> 'w"
  db_get_all_chunks :: "'w \<Rightarrow> (exn + chunk_row list) \<times> 'w"

definition score_of :: "scored \<Rightarrow> real" where
  "score_of x = snd (snd x)"

text \<open>
  A line printed on standard output by an \<^verbatim>\<open>except\<close> clause: the literal prefix of the
  f-string and the exception whose \<^verbatim>\<open>str\<close> follows it.
\<close>

type_synonym log_line = "string \<times> exn"

text \<open>
  What a call gives back to its caller: \<open>Inr\<close> the returned list, \<open>Inl\<close> an exception
  that leaves the function; beside it the lines printed meanwhile.
\<close>

type_synonym outcome = "(exn + scored list) \<times> log_line list"

text \<open>
  \<^verbatim>\<open>xs[:k]\<close>: Python's slice. A negative \<open>k\<close> counts from the end, so \<^verbatim>\<open>xs[:-1]\<close> is
  everything but the last element.
\<close>

definition slice_to :: "int \<Rightarrow> 'a list \<Rightarrow> 'a list" where
  "slice_to k xs =
     (if 0 \<le> k then take (nat k) xs else take (length xs - nat (- k)) xs)"

text \<open>
  \<^verbatim>\<open>list.sort(key=lambda x: x[2], reverse=True)\<close> and \<^verbatim>\<open>list.sort(key=lambda x: x[2])\<close>.
  Python's sort is stable, also with \<^verbatim>\<open>reverse=True\<close>: entries with equal keys keep
  their order. The descending sort is the stable sort on the negated key.
\<close>

definition sort_desc :: "scored list \<Rightarrow> scored list" where
  "sort_desc xs = sort_key (\<lambda>x. - score_of x) xs"

definition sort_asc :: "scored list \<Rightarrow> scored list" where
  "sort_asc xs = sort_key score_of xs"

text \<open>
  The scoring loops (\<^verbatim>\<open>for chunk_id, text, chunk_embedding in chunks\<close>): the first
  chunk whose score raises ends the loop with that exception.
\<close>

fun score_chunks ::
  "(ndarray \<Rightarrow> ndarray \<Rightarrow> exn + real) \<Rightarrow> ndarray \<Rightarrow> chunk_row list \<Rightarrow> exn + scored list"
where
  "score_chunks f q [] = Inr []"
| "score_chunks f q ((cid, t, chunk_embedding) # rest) =
     (case f q chunk_embedding of
        Inl e \<Rightarrow> Inl e
      | Inr s \<Rightarrow>
          (case score_chunks f q rest of
             Inl e \<Rightarrow> Inl e
           | Inr scored_rest \<Rightarrow> Inr ((cid, t, s) # scored_rest)))"

text \<open>The body of the \<^verbatim>\<open>try\<close> block of \<^verbatim>\<open>retrieve_similar_chunks\<close>.\<close>

definition similar_chunks_try ::
  "'w retriever \<Rightarrow> string \<Rightarrow> int \<Rightarrow> real \<Rightarrow> 'w \<Rightarrow> (exn + scored list) \<times> 'w" where
  "similar_chunks_try R query top_k similarity_threshold w =
     (case em_get_embedding R query w of
        (Inl e, w1) \<Rightarrow> (Inl e, w1)
      | (Inr query_embedding, w1) \<Rightarrow>
          (case db_get_all_chunks R w1 of
             (Inl e, w2) \<Rightarrow> (Inl e, w2)
           | (Inr fetched, w2) \<Rightarrow>
               if fetched = [] then (Inr [], w2)
               else
                 (case score_chunks cosine_similarity query_embedding fetched of
                    Inl e \<Rightarrow> (Inl e, w2)
                  | Inr similarities \<Rightarrow>
                      (let filtered_results =
                             filter (\<lambda>x. score_of x \<ge> similarity_threshold)
                               (sort_desc similarities)
                       in (Inr (slice_to top_k filtered_results), w2)))))"

text \<open>
  \<^verbatim>\<open>retrieve_similar_chunks\<close>: the \<^verbatim>\<open>try\<close> block under its \<^verbatim>\<open>except Exception\<close>
  clause, which prints and returns the empty list.
\<close>

definition retrieve_similar_chunks ::
  "'w retriever \<Rightarrow> string \<Rightarrow> int \<Rightarrow> real \<Rightarrow> 'w \<Rightarrow> outcome \<times> 'w" where
  "retrieve_similar_chunks R query top_k similarity_threshold w =
     (case similar_chunks_try R query top_k similarity_threshold w of
        (Inr results, w') \<Rightarrow> ((Inr results, []), w')
      | (Inl e, w') \<Rightarrow> ((Inr [], [(''Error in similarity search: '', e)]), w'))"

text \<open>
  \<^verbatim>\<open>max_distance\<close> is a float that may be \<^verbatim>\<open>float('inf')\<close>, as \<^verbatim>\<open>hybrid_search\<close> passes
  it.
\<close>

datatype bound = Finite real | Infinity

fun le_bound :: "real \<Rightarrow> bound \<Rightarrow> bool" where
  "le_bound d (Finite m) = (d \<le> m)"
| "le_bound d Infinity = True"

definition l2_distance_try ::
  "'w retriever \<Rightarrow> string \<Rightarrow> int \<Rightarrow> bound \<Rightarrow> 'w \<Rightarrow> (exn + scored list) \<times> 'w" where
  "l2_distance_try R query top_k max_distance w =
     (case em_get_embedding R query w of
        (Inl e, w1) \<Rightarrow> (Inl e, w1)
      | (Inr query_embedding, w1) \<Rightarrow>
          (case db_get_all_chunks R w1 of
             (Inl e, w2) \<Rightarrow> (Inl e, w2)
           | (Inr fetched, w2) \<Rightarrow>
               if fetched = [] then (Inr [], w2)
               else
                 (case score_chunks l2_distance query_embedding fetched of
                    Inl e \<Rightarrow> (Inl e, w2)
                  | Inr distances \<Rightarrow>
                      (let filtered_results =
                             filter (\<lambda>x. le_bound (score_of x) max_distance)
                               (sort_asc distances)
                       in (Inr (slice_to top_k filtered_results), w2)))))"

definition retrieve_by_l2_distance ::
  "'w retriever \<Rightarrow> string \<Rightarrow> int \<Rightarrow> bound \<Rightarrow> 'w \<Rightarrow> outcome \<times> 'w" where
  "retrieve_by_l2_distance R query top_k max_distance w =
     (case l2_distance_try R query top_k max_distance w of
        (Inr results, w') \<Rightarrow> ((Inr results, []), w')
      | (Inl e, w') \<Rightarrow> ((Inr [], [(''Error in L2 distance search: '', e)]), w'))"

subsection \<open>Hybrid search\<close>

text \<open>
  \<^verbatim>\<open>{chunk_id: score for chunk_id, _, score in results}\<close>: a later entry with the same
  key replaces an earlier one.
\<close>

definition score_dict :: "scored list \<Rightarrow> int \<Rightarrow> real option" where
  "score_dict results = map_of (rev (map (\<lambda>(cid, t, s). (cid, s)) results))"

text \<open>
  \<^verbatim>\<open>next((text for cid, text, _ in results if cid == chunk_id), default)\<close>: the text of
  the first entry with that id, \<open>None\<close> when the default is taken.
\<close>

definition first_text :: "int \<Rightarrow> scored list \<Rightarrow> string option" where
  "first_text k results =
     (case filter (\<lambda>(cid, t, s). cid = k) results of
        [] \<Rightarrow> None
      | (cid, t, s) # _ \<Rightarrow> Some t)"

text \<open>
  The body of the loop over \<^verbatim>\<open>all_chunk_ids\<close>. An id missing from \<^verbatim>\<open>l2_dict\<close> has the
  distance \<^verbatim>\<open>float('inf')\<close>, for which \<^verbatim>\<open>max(0, 1 - inf / 2.0)\<close> is \<open>0\<close>.
\<close>

definition combine :: "real \<Rightarrow> real \<Rightarrow> scored list \<Rightarrow> scored list \<Rightarrow> int \<Rightarrow> scored" where
  "combine cosine_weight l2_weight cosine_results l2_results k =
     (let cosine_score = (case score_dict cosine_results k of Some s \<Rightarrow> s | None \<Rightarrow> 0);
          l2_score = (case score_dict l2_results k of
                        Some d \<Rightarrow> max 0 (1 - d / 2)
                      | None \<Rightarrow> 0);
          combined_score = cosine_weight * cosine_score + l2_weight * l2_score;
          txt = (case first_text k cosine_results of
                   Some t \<Rightarrow> t
                 | None \<Rightarrow> (case first_text k l2_results of Some t \<Rightarrow> t | None \<Rightarrow> []))
      in (k, txt, combined_score))"

text \<open>
  \<^verbatim>\<open>hybrid_search\<close>. \<open>set_iter\<close> is the order in which Python iterates over the set
  \<^verbatim>\<open>all_chunk_ids\<close>; the language leaves it open, so it is a parameter. The two
  retrievals are two calls on the outside world, one after the other. An exception that
  reached the body would be printed by its own \<^verbatim>\<open>except\<close> clause.
\<close>

definition hybrid_search ::
  "(int set \<Rightarrow> int list) \<Rightarrow> 'w retriever \<Rightarrow> string \<Rightarrow> int \<Rightarrow> real \<Rightarrow> real \<Rightarrow> 'w \<Rightarrow> outcome \<times> 'w"
where
  "hybrid_search set_iter R query top_k cosine_weight l2_weight w =
     (case retrieve_similar_chunks R query (top_k * 2) 0 w of
        ((Inl e, log1), w1) \<Rightarrow>
          ((Inr [], log1 @ [(''Error in hybrid search: '', e)]), w1)
      | ((Inr cosine_results, log1), w1) \<Rightarrow>
          (case retrieve_by_l2_distance R query (top_k * 2) Infinity w1 of
             ((Inl e, log2), w2) \<Rightarrow>
               ((Inr [], log1 @ log2 @ [(''Error in hybrid search: '', e)]), w2)
           | ((Inr l2_results, log2), w2) \<Rightarrow>
               (let all_chunk_ids = set (map fst cosine_results) \<union> set (map fst l2_results);
                    combined_scores =
                      map (combine cosine_weight l2_weight cosine_results l2_results)
                        (set_iter all_chunk_ids)
                in ((Inr (slice_to top_k (sort_desc combined_scores)), log1 @ log2), w2))))"

subsection \<open>Context assembly\<close>

text \<open>
  \<^verbatim>\<open>f"{score:.3f}"\<close>: the sign, the integer part in decimal, a point and three decimals,
  rounded to the nearest thousandth (a tie goes to the even neighbour).
\<close>

definition digit_char :: "nat \<Rightarrow> char" where
  "digit_char d = ''0123456789'' ! d"

fun show_nat :: "nat \<Rightarrow> string" where
  "show_nat n =
     (if n < 10 then [digit_char n] else show_nat (n div 10) @ [digit_char (n mod 10)])"

definition round_half_even :: "real \<Rightarrow> int" where
  "round_half_even y =
     (let f = \<lfloor>y\<rfloor>; d = y - of_int f
      in if d < 1 / 2 then f else if 1 / 2 < d then f + 1
         else if even f then f else f + 1)"

definition format_3f :: "real \<Rightarrow> string" where
  "format_3f x =
     (let n = nat (round_half_even (\<bar>x\<bar> * 1000))
      in (if x < 0 then ''-'' else []) @ show_nat (n div 1000) @ ''.'' @
         [digit_char (n div 100 mod 10), digit_char (n div 10 mod 10), digit_char (n mod 10)])"

text \<open>\<^verbatim>\<open>sep.join(parts)\<close>.\<close>

fun join :: "string \<Rightarrow> string list \<Rightarrow> string" where
  "join sep [] = []"
| "join sep [p] = p"
| "join sep (p # ps) = p @ sep @ join sep ps"

text \<open>
  The loop of \<^verbatim>\<open>build_context_from_chunks\<close>, with \<^verbatim>\<open>context_parts\<close> and
  \<^verbatim>\<open>current_length\<close> as accumulators; \<^verbatim>\<open>break\<close> leaves with the parts collected so far.
\<close>

fun context_loop :: "scored list \<Rightarrow> int \<Rightarrow> string list \<Rightarrow> int \<Rightarrow> string list" where
  "context_loop [] max_context_length context_parts current_length = context_parts"
| "context_loop ((cid, t, s) # rest) max_context_length context_parts current_length =
     (let chunk_with_score = ''[Score: '' @ format_3f s @ ''] '' @ t
      in if current_length + int (length chunk_with_score) > max_context_length
         then context_parts
         else context_loop rest max_context_length (context_parts @ [chunk_with_score])
                (current_length + int (length chunk_with_score)))"

definition build_context_from_chunks :: "scored list \<Rightarrow> int \<Rightarrow> string" where
  "build_context_from_chunks cs max_context_length =
     (if cs = [] then []
      else join [CHR 0x0A, CHR 0x0A] (context_loop cs max_context_length [] 0))"

subsection \<open>Two retrievers to run the operations on\<close>

text \<open>
  \<open>fixed_retriever q cs\<close>: an embedder that answers every query with \<open>q\<close> and a store
  that reads as \<open>cs\<close>. \<open>flaky_retriever q cs\<close>: the same, but the first call of the
  embedder fails (a connection that is refused once); the outside state counts the calls.
\<close>

definition fixed_retriever :: "ndarray \<Rightarrow> chunk_row list \<Rightarrow> unit retriever" where
  "fixed_retriever q cs =
     \<lparr>em_get_embedding = (\<lambda>query w. (Inr q, w)), db_get_all_chunks = (\<lambda>w. (Inr cs, w))\<rparr>"



section \<open>The encoding round trip\<close>

lemma float32_of_bytes_split:
  "float32_of_bytes (ucast w) (ucast (drop_bit 8 w)) (ucast (drop_bit 16 w))
     (ucast (drop_bit 24 w)) = w"
proof (rule bit_word_eqI)
  fix n :: nat
  assume "n < LENGTH(32)"
  then have "n < 32" by simp
  then consider "n < 8" | "8 \<le> n" "n < 16" | "16 \<le> n" "n < 24" | "24 \<le> n" "n < 32"
    by linarith
  then show "bit (float32_of_bytes (ucast w) (ucast (drop_bit 8 w)) (ucast (drop_bit 16 w))
                   (ucast (drop_bit 24 w))) n = bit w n"
    unfolding float32_of_bytes_def by cases (auto simp: bit_simps)
qed

lemma float32s_of_bytes_tobytes: "float32s_of_bytes (tobytes v) = v"
proof (induction v)
  case Nil
  show ?case by (simp add: tobytes_def)
next
  case (Cons w v)
  have "float32s_of_bytes (tobytes (w # v)) =
        float32_of_bytes (ucast w) (ucast (drop_bit 8 w)) (ucast (drop_bit 16 w))
          (ucast (drop_bit 24 w)) # float32s_of_bytes (tobytes v)"
    by (simp add: tobytes_def float32_bytes_def)
  then show ?case
    using Cons.IH by (simp add: float32_of_bytes_split)
qed

lemma length_tobytes: "length (tobytes v) = 4 * length v"
  by (induction v) (simp_all add: tobytes_def float32_bytes_def)

lemma frombuffer_tobytes: "frombuffer (tobytes v) = Inr v"
  by (simp add: frombuffer_def length_tobytes float32s_of_bytes_tobytes)

lemma decode_rows_append:
  "decode_rows rs = Inr cs \<Longrightarrow> decode_rows [r] = Inr [c] \<Longrightarrow>
   decode_rows (rs @ [r]) = Inr (cs @ [c])"
  by (induction rs arbitrary: cs) (auto split: sum.splits)

text \<open>
  C7. An embedding of 32-bit floats that \<^verbatim>\<open>add_chunk\<close> stores is read back bit for bit:
  decoding the encoding gives the vector itself, and both \<^verbatim>\<open>get_all_chunks\<close> and
  \<^verbatim>\<open>get_document_chunks\<close> return, after whatever they returned before, the new chunk with
  exactly the vector that was stored.
\<close>

theorem add_chunk_embedding_roundtrip:
  "frombuffer (tobytes v) = Inr v \<and>
   (get_all_chunks s = Inr cs \<longrightarrow>
      get_all_chunks (add_chunk s d t v) =
        Inr (cs @ [(next_rowid (seq_chunks s) (map chunk_id (chunks s)), t, v)])) \<and>
   (get_document_chunks s d = Inr ds \<longrightarrow>
      get_document_chunks (add_chunk s d t v) d =
        Inr (ds @ [(next_rowid (seq_chunks s) (map chunk_id (chunks s)), t, v)]))"
  by (auto simp: get_all_chunks_def get_document_chunks_def add_chunk_def Let_def
        frombuffer_tobytes intro!: decode_rows_append)

theorem add_chunk_embedding_roundtrip_witness:
  "get_all_chunks empty_store = Inr [] \<and>
   get_document_chunks empty_store 1 = Inr [] \<and>
   get_all_chunks (add_chunk empty_store 1 ''a'' [0x3F800000, 0x80000001]) =
     Inr [(1, ''a'', [0x3F800000, 0x80000001])] \<and>
   get_document_chunks (add_chunk empty_store 1 ''a'' [0x3F800000, 0x80000001]) 1 =
     Inr [(1, ''a'', [0x3F800000, 0x80000001])]"
  using add_chunk_embedding_roundtrip
    [where v = "[0x3F800000, 0x80000001]" and s = empty_store and cs = "[]" and d = 1
       and t = "''a''" and ds = "[]"]
  by (simp add: get_all_chunks_def get_document_chunks_def empty_store_def next_rowid_def)

section \<open>Deleting a document\<close>

lemma chunks_delete_document:
  "chunks (delete_document s d) = filter (\<lambda>r. chunk_doc_id r \<noteq> d) (chunks s)"
  by (simp add: delete_document_def delete_document_row_def delete_chunks_of_def)


text \<open>
  C6. After \<^verbatim>\<open>delete_document(d)\<close> no chunk row of the store carries document id \<open>d\<close>:
  \<^verbatim>\<open>get_document_chunks(d)\<close> returns the empty list, and \<^verbatim>\<open>get_all_chunks()\<close> reads
  exactly the rows of the other documents. The chunks go first: after the first statement
  the chunk rows of \<open>d\<close> are gone while the documents table is still untouched, and the
  document row is deleted from that state.
\<close>

theorem delete_document_removes_chunks:
  "get_document_chunks (delete_document s d) d = Inr [] \<and>
   filter (\<lambda>r. chunk_doc_id r = d) (chunks (delete_document s d)) = [] \<and>
   get_all_chunks (delete_document s d) =
     decode_rows (filter (\<lambda>r. chunk_doc_id r \<noteq> d) (chunks s)) \<and>
   filter (\<lambda>r. chunk_doc_id r = d) (chunks (delete_chunks_of d s)) = [] \<and>
   documents (delete_chunks_of d s) = documents s \<and>
   delete_document s d = delete_document_row d (delete_chunks_of d s)"
proof -
  have none: "filter (\<lambda>r. chunk_doc_id r = d) (filter (\<lambda>r. chunk_doc_id r \<noteq> d) rs) = []"
    for rs :: "chunk list"
    by (induction rs) simp_all
  have "get_document_chunks (delete_document s d) d = Inr []"
    and "filter (\<lambda>r. chunk_doc_id r = d) (chunks (delete_document s d)) = []"
    and "get_all_chunks (delete_document s d) =
         decode_rows (filter (\<lambda>r. chunk_doc_id r \<noteq> d) (chunks s))"
    by (simp_all add: get_document_chunks_def get_all_chunks_def chunks_delete_document none)
  moreover have "filter (\<lambda>r. chunk_doc_id r = d) (chunks (delete_chunks_of d s)) = []"
    and "documents (delete_chunks_of d s) = documents s"
    by (simp_all add: delete_chunks_of_def none)
  ultimately show ?thesis
    by (simp add: delete_document_def)
qed





section \<open>Ranking: sorting, filtering, slicing\<close>



lemma slice_to_zero: "slice_to 0 xs = []"
  by (simp add: slice_to_def)

lemma slice_to_Nil: "slice_to k [] = []"
  by (simp add: slice_to_def)







lemma similar_try_cases:
  "similar_chunks_try R query k thr w =
     (case em_get_embedding R query w of
        (Inl e, w1) \<Rightarrow> (Inl e, w1)
      | (Inr q, w1) \<Rightarrow>
          (case db_get_all_chunks R w1 of
             (Inl e, w2) \<Rightarrow> (Inl e, w2)
           | (Inr cs, w2) \<Rightarrow>
               (case score_chunks cosine_similarity q cs of
                  Inl e \<Rightarrow> (Inl e, w2)
                | Inr sims \<Rightarrow>
                    (Inr (slice_to k (filter (\<lambda>x. thr \<le> score_of x) (sort_desc sims))), w2))))"
  by (auto simp: similar_chunks_try_def slice_to_Nil sort_desc_def split: prod.splits sum.splits)


lemma retrieve_similar_chunks_outcome:
  "(\<exists>e w'. retrieve_similar_chunks R query k thr w =
             ((Inr [], [(''Error in similarity search: '', e)]), w')) \<or>
   (\<exists>q w1 cs w2 sims.
      em_get_embedding R query w = (Inr q, w1) \<and>
      db_get_all_chunks R w1 = (Inr cs, w2) \<and>
      score_chunks cosine_similarity q cs = Inr sims \<and>
      retrieve_similar_chunks R query k thr w =
        ((Inr (slice_to k (filter (\<lambda>x. thr \<le> score_of x) (sort_desc sims))), []), w2))"
  by (auto simp: retrieve_similar_chunks_def similar_try_cases split: prod.splits sum.splits)


lemma retrieve_similar_chunks_returns:
  "\<exists>res lg w'. retrieve_similar_chunks R query k thr w = ((Inr res, lg), w')"
  using retrieve_similar_chunks_outcome [of R query k thr w] by auto


lemma l2_try_cases:
  "l2_distance_try R query k md w =
     (case em_get_embedding R query w of
        (Inl e, w1) \<Rightarrow> (Inl e, w1)
      | (Inr q, w1) \<Rightarrow>
          (case db_get_all_chunks R w1 of
             (Inl e, w2) \<Rightarrow> (Inl e, w2)
           | (Inr cs, w2) \<Rightarrow>
               (case score_chunks l2_distance q cs of
                  Inl e \<Rightarrow> (Inl e, w2)
                | Inr ds \<Rightarrow>
                    (Inr (slice_to k (filter (\<lambda>x. le_bound (score_of x) md) (sort_asc ds))), w2))))"
  by (auto simp: l2_distance_try_def slice_to_Nil sort_asc_def split: prod.splits sum.splits)

lemma retrieve_by_l2_distance_outcome:
  "(\<exists>e w'. retrieve_by_l2_distance R query k md w =
             ((Inr [], [(''Error in L2 distance search: '', e)]), w')) \<or>
   (\<exists>q w1 cs w2 ds.
      em_get_embedding R query w = (Inr q, w1) \<and>
      db_get_all_chunks R w1 = (Inr cs, w2) \<and>
      score_chunks l2_distance q cs = Inr ds \<and>
      retrieve_by_l2_distance R query k md w =
        ((Inr (slice_to k (filter (\<lambda>x. le_bound (score_of x) md) (sort_asc ds))), []), w2))"
  by (auto simp: retrieve_by_l2_distance_def l2_try_cases split: prod.splits sum.splits)

lemma retrieve_by_l2_distance_returns:
  "\<exists>res lg w'. retrieve_by_l2_distance R query k md w = ((Inr res, lg), w')"
  using retrieve_by_l2_distance_outcome [of R query k md w] by auto

lemma hybrid_search_unfold:
  assumes "retrieve_similar_chunks R query (k * 2) 0 w = ((Inr cr, lg1), w1)"
    and "retrieve_by_l2_distance R query (k * 2) Infinity w1 = ((Inr lr, lg2), w2)"
  shows "hybrid_search it R query k cw lw w =
     ((Inr (slice_to k (sort_desc (map (combine cw lw cr lr)
               (it (set (map fst cr) \<union> set (map fst lr)))))), lg1 @ lg2), w2)"
  using assms by (simp add: hybrid_search_def Let_def)




lemma similar_scoring_fails:
  "em_get_embedding R query w = (Inr q, w1) \<Longrightarrow> db_get_all_chunks R w1 = (Inr cs, w2) \<Longrightarrow>
   score_chunks cosine_similarity q cs = Inl e \<Longrightarrow>
   retrieve_similar_chunks R query k thr w = ((Inr [], [(''Error in similarity search: '', e)]), w2)"
  by (simp add: retrieve_similar_chunks_def similar_try_cases)



lemma l2_scoring_fails:
  "em_get_embedding R query w = (Inr q, w1) \<Longrightarrow> db_get_all_chunks R w1 = (Inr cs, w2) \<Longrightarrow>
   score_chunks l2_distance q cs = Inl e \<Longrightarrow>
   retrieve_by_l2_distance R query k md w = ((Inr [], [(''Error in L2 distance search: '', e)]), w2)"
  by (simp add: retrieve_by_l2_distance_def l2_try_cases)

lemma cosine_examples:
  "cosine_similarity [1, 0] [1, 0] = Inr 1"
  "cosine_similarity [1, 0] [0, 1] = Inr 0"
  "cosine_similarity [1, 0] [-1, 0] = Inr (-1)"
  by (simp_all add: cosine_similarity_def np_dot_def np_norm_def)

lemma l2_examples:
  "l2_distance [1, 0] [1, 0] = Inr 0"
  "l2_distance [1, 0] [-1, 0] = Inr 2"
  by (simp_all add: l2_distance_def np_sub_def np_norm_def)


section \<open>Similarity retrieval\<close>





section \<open>Cosine similarity\<close>






section \<open>Context assembly\<close>

text \<open>
  What the loop does bound is the sum of the lengths of the chunks it keeps, which are the
  first chunks of its input; the separators come on top.
\<close>

lemma length_join:
  "length (join sep ps) = sum_list (map length ps) + length sep * (length ps - 1)"
  by (induction sep ps rule: join.induct) simp_all

lemma context_loop_sum:
  assumes "int (sum_list (map length parts)) = cur" and "cur \<le> m"
  shows "int (sum_list (map length (context_loop cs m parts cur))) \<le> m"
  using assms
proof (induction cs m parts cur rule: context_loop.induct)
  case (1 m parts cur)
  then show ?case by simp
next
  case (2 cid t s rest m parts cur)
  let ?c = "''[Score: '' @ format_3f s @ ''] '' @ t"
  show ?case
  proof (cases "cur + int (length ?c) > m")
    case True
    with "2.prems" show ?thesis by (simp add: Let_def)
  next
    case False
    have "int (sum_list (map length (parts @ [?c]))) = cur + int (length ?c)"
      using "2.prems"(1) by simp
    moreover from False have "cur + int (length ?c) \<le> m" by simp
    ultimately have "int (sum_list (map length
        (context_loop rest m (parts @ [?c]) (cur + int (length ?c))))) \<le> m"
      using "2.IH" [of ?c] False by simp
    with False show ?thesis by (simp add: Let_def)
  qed
qed

lemma context_loop_prefix:
  "\<exists>n. context_loop cs m parts cur =
         parts @ map (\<lambda>(cid, t, s). ''[Score: '' @ format_3f s @ ''] '' @ t) (take n cs)"
proof (induction cs m parts cur rule: context_loop.induct)
  case (1 m parts cur)
  then show ?case by simp
next
  case (2 cid t s rest m parts cur)
  let ?c = "''[Score: '' @ format_3f s @ ''] '' @ t"
  let ?f = "\<lambda>(cid, t, s). ''[Score: '' @ format_3f s @ ''] '' @ t"
  show ?case
  proof (cases "cur + int (length ?c) > m")
    case True
    then have "context_loop ((cid, t, s) # rest) m parts cur =
               parts @ map ?f (take 0 ((cid, t, s) # rest))"
      by (simp add: Let_def)
    then show ?thesis by blast
  next
    case False
    then obtain n where "context_loop rest m (parts @ [?c]) (cur + int (length ?c)) =
        (parts @ [?c]) @ map ?f (take n rest)"
      using "2.IH" [of ?c] by auto
    with False have "context_loop ((cid, t, s) # rest) m parts cur =
               parts @ map ?f (take (Suc n) ((cid, t, s) # rest))"
      by (simp add: Let_def)
    then show ?thesis by blast
  qed
qed

lemma build_context_length:
  assumes "0 \<le> m"
  shows "int (length (build_context_from_chunks cs m)) \<le>
         m + 2 * (int (length (context_loop cs m [] 0)) - 1) \<or>
         build_context_from_chunks cs m = []"
proof (cases "context_loop cs m [] 0 = [] \<or> cs = []")
  case True
  then show ?thesis
    by (auto simp: build_context_from_chunks_def)
next
  case False
  then have n: "length (context_loop cs m [] 0) \<ge> 1"
    by (cases "context_loop cs m [] 0") auto
  have "int (sum_list (map length (context_loop cs m [] 0))) \<le> m"
    using context_loop_sum [of "[]" 0 m cs] assms by simp
  moreover have "length (build_context_from_chunks cs m) =
      sum_list (map length (context_loop cs m [] 0)) +
      2 * (length (context_loop cs m [] 0) - 1)"
    using False by (simp add: build_context_from_chunks_def length_join)
  ultimately show ?thesis
    using n by simp
qed

lemma format_3f_examples: "format_3f 1 = ''1.000''" "format_3f (1 / 2) = ''0.500''"
  by (simp_all add: format_3f_def round_half_even_def Let_def digit_char_def)

text \<open>
  C2 fails on the code. \<^verbatim>\<open>current_length\<close> adds up the chunks only, while the returned
  string also holds the two-character separators that \<^verbatim>\<open>join\<close> puts between them. Two
  chunks of 16 characters each pass the test against \<^verbatim>\<open>max_context_length = 32\<close>, and
  the string that comes back has 34 characters.
\<close>

theorem build_context_exceeds_max_length:
  "build_context_from_chunks [(1, ''a'', 1), (2, ''b'', 1 / 2)] 32 =
     ''[Score: 1.000] a'' @ [CHR 0x0A, CHR 0x0A] @ ''[Score: 0.500] b'' \<and>
   length (build_context_from_chunks [(1, ''a'', 1), (2, ''b'', 1 / 2)] 32) = 34"
  by (simp add: build_context_from_chunks_def format_3f_examples)


section \<open>Dimension mismatch\<close>

lemma cosine_similarity_total:
  "length q = length e \<Longrightarrow> \<exists>s. cosine_similarity q e = Inr s"
  by (simp add: cosine_similarity_def np_dot_def Let_def)

lemma score_chunks_cosine_mismatch:
  assumes "\<exists>x \<in> set cs. length (snd (snd x)) \<noteq> length q"
  shows "\<exists>n. n \<noteq> length q \<and>
           score_chunks cosine_similarity q cs = Inl (ShapeError (length q) n)"
  using assms
proof (induction cs)
  case Nil
  then show ?case by simp
next
  case (Cons x cs)
  obtain c t e where x: "x = (c, t, e)"
    by (cases x) auto
  show ?case
  proof (cases "length q = length e")
    case False
    then have "score_chunks cosine_similarity q (x # cs) = Inl (ShapeError (length q) (length e))"
      by (simp add: x cosine_similarity_def np_dot_def)
    with False show ?thesis by metis
  next
    case True
    then obtain s where s: "cosine_similarity q e = Inr s"
      using cosine_similarity_total by blast
    from True Cons.prems have "\<exists>x \<in> set cs. length (snd (snd x)) \<noteq> length q"
      by (auto simp: x)
    then obtain n where "n \<noteq> length q"
      and "score_chunks cosine_similarity q cs = Inl (ShapeError (length q) n)"
      using Cons.IH by blast
    then show ?thesis
      by (auto simp: x s)
  qed
qed

lemma l2_distance_total:
  "length q = length e \<or> length q = 1 \<or> length e = 1 \<Longrightarrow> \<exists>d. l2_distance q e = Inr d"
  by (auto simp: l2_distance_def np_sub_def)

lemma score_chunks_l2_mismatch:
  assumes "\<exists>x \<in> set cs. length (snd (snd x)) \<noteq> length q \<and> length (snd (snd x)) \<noteq> 1"
    and "length q \<noteq> 1"
  shows "\<exists>n. n \<noteq> length q \<and>
           score_chunks l2_distance q cs = Inl (BroadcastError (length q) n)"
  using assms(1)
proof (induction cs)
  case Nil
  then show ?case by simp
next
  case (Cons x cs)
  obtain c t e where x: "x = (c, t, e)"
    by (cases x) auto
  show ?case
  proof (cases "length q = length e \<or> length e = 1")
    case False
    with assms(2) have "score_chunks l2_distance q (x # cs) =
                        Inl (BroadcastError (length q) (length e))"
      by (simp add: x l2_distance_def np_sub_def)
    with False show ?thesis by metis
  next
    case True
    then obtain d where d: "l2_distance q e = Inr d"
      using l2_distance_total [of q e] by blast
    from True Cons.prems
    have "\<exists>x \<in> set cs. length (snd (snd x)) \<noteq> length q \<and> length (snd (snd x)) \<noteq> 1"
      by (auto simp: x)
    then obtain n where "n \<noteq> length q"
      and "score_chunks l2_distance q cs = Inl (BroadcastError (length q) n)"
      using Cons.IH by blast
    then show ?thesis
      by (auto simp: x d)
  qed
qed

text \<open>
  C3, as amended. A dimension mismatch during scoring raises inside the scoring function
  (\<^verbatim>\<open>np.dot\<close> for any two different lengths; the subtraction of \<^verbatim>\<open>l2_distance\<close> unless
  one of the two arrays has length one, which numpy broadcasts), and the \<^verbatim>\<open>except Exception\<close>
  clause of the retrieval operation catches it: \<^verbatim>\<open>retrieve_similar_chunks\<close> and
  \<^verbatim>\<open>retrieve_by_l2_distance\<close> print the error and return the empty list. Nothing reaches
  the caller.
\<close>

theorem dimension_mismatch_is_caught:
  assumes em: "em_get_embedding R query w = (Inr q, w1)"
    and db: "db_get_all_chunks R w1 = (Inr cs, w2)"
  shows "((\<exists>x \<in> set cs. length (snd (snd x)) \<noteq> length q) \<longrightarrow>
            (\<exists>n. n \<noteq> length q \<and>
               retrieve_similar_chunks R query top_k thr w =
                 ((Inr [], [(''Error in similarity search: '', ShapeError (length q) n)]),
                  w2))) \<and>
         ((\<exists>x \<in> set cs. length (snd (snd x)) \<noteq> length q \<and> length (snd (snd x)) \<noteq> 1) \<and>
          length q \<noteq> 1 \<longrightarrow>
            (\<exists>n. n \<noteq> length q \<and>
               retrieve_by_l2_distance R query top_k md w =
                 ((Inr [], [(''Error in L2 distance search: '', BroadcastError (length q) n)]),
                  w2)))"
proof (intro conjI impI)
  assume "\<exists>x \<in> set cs. length (snd (snd x)) \<noteq> length q"
  then obtain n where "n \<noteq> length q"
    and "score_chunks cosine_similarity q cs = Inl (ShapeError (length q) n)"
    using score_chunks_cosine_mismatch by blast
  then show "\<exists>n. n \<noteq> length q \<and>
               retrieve_similar_chunks R query top_k thr w =
                 ((Inr [], [(''Error in similarity search: '', ShapeError (length q) n)]), w2)"
    using similar_scoring_fails [OF em db] by blast
next
  assume "(\<exists>x \<in> set cs. length (snd (snd x)) \<noteq> length q \<and> length (snd (snd x)) \<noteq> 1) \<and>
          length q \<noteq> 1"
  then obtain n where "n \<noteq> length q"
    and "score_chunks l2_distance q cs = Inl (BroadcastError (length q) n)"
    using score_chunks_l2_mismatch by blast
  then show "\<exists>n. n \<noteq> length q \<and>
               retrieve_by_l2_distance R query top_k md w =
                 ((Inr [], [(''Error in L2 distance search: '', BroadcastError (length q) n)]), w2)"
    using l2_scoring_fails [OF em db] by blast
qed

text \<open>A query embedding of three numbers against a stored chunk of two.\<close>

theorem dimension_mismatch_is_caught_witness:
  "em_get_embedding (fixed_retriever [1, 0, 0] [(1, ''a'', [1, 0])]) ''q'' () =
     (Inr [1, 0, 0], ()) \<and>
   db_get_all_chunks (fixed_retriever [1, 0, 0] [(1, ''a'', [1, 0])]) () =
     (Inr [(1, ''a'', [1, 0])], ()) \<and>
   length [1 :: real, 0] \<noteq> length [1 :: real, 0, 0] \<and>
   fst (fst (retrieve_similar_chunks (fixed_retriever [1, 0, 0] [(1, ''a'', [1, 0])])
               ''q'' 5 (1 / 2) ())) = Inr [] \<and>
   fst (fst (retrieve_by_l2_distance (fixed_retriever [1, 0, 0] [(1, ''a'', [1, 0])])
               ''q'' 5 (Finite 2) ())) = Inr []"
proof -
  let ?R = "fixed_retriever [1, 0, 0] [(1, ''a'', [1, 0])]"
  have em: "em_get_embedding ?R ''q'' () = (Inr [1, 0, 0], ())"
    and db: "db_get_all_chunks ?R () = (Inr [(1, ''a'', [1, 0])], ())"
    by (simp_all add: fixed_retriever_def)
  from dimension_mismatch_is_caught [OF em db, of 5 "1 / 2" "Finite 2"]
  have "(\<exists>n. retrieve_similar_chunks ?R ''q'' 5 (1 / 2) () =
           ((Inr [], [(''Error in similarity search: '', ShapeError (length [1 :: real, 0, 0]) n)]), ()))"
    and "(\<exists>n. retrieve_by_l2_distance ?R ''q'' 5 (Finite 2) () =
           ((Inr [], [(''Error in L2 distance search: '', BroadcastError (length [1 :: real, 0, 0]) n)]), ()))"
    by auto
  then have "fst (fst (retrieve_similar_chunks ?R ''q'' 5 (1 / 2) ())) = Inr []"
    and "fst (fst (retrieve_by_l2_distance ?R ''q'' 5 (Finite 2) ())) = Inr []"
    by auto
  with em db show ?thesis by simp
qed

text \<open>
  The claim as first stated fails: on that input both operations return (\<open>Inr\<close>) the
  empty list and print the \<^verbatim>\<open>ValueError\<close>; neither lets it through (\<open>Inl\<close>).
\<close>

theorem dimension_mismatch_counterexample:
  "retrieve_similar_chunks (fixed_retriever [1, 0, 0] [(1, ''a'', [1, 0])]) ''q'' 5 (1 / 2) () =
     ((Inr [], [(''Error in similarity search: '', ShapeError 3 2)]), ()) \<and>
   retrieve_by_l2_distance (fixed_retriever [1, 0, 0] [(1, ''a'', [1, 0])]) ''q'' 5 (Finite 2) () =
     ((Inr [], [(''Error in L2 distance search: '', BroadcastError 3 2)]), ())"
  by (simp add: retrieve_similar_chunks_def similar_chunks_try_def retrieve_by_l2_distance_def
        l2_distance_try_def fixed_retriever_def cosine_similarity_def np_dot_def
        l2_distance_def np_sub_def)

section \<open>Empty results\<close>

lemma similar_chunks_zero:
  "\<exists>lg w'. retrieve_similar_chunks R query 0 thr w = ((Inr [], lg), w')"
  using retrieve_similar_chunks_outcome [of R query 0 thr w]
  by (auto simp: slice_to_zero)

lemma l2_distance_zero:
  "\<exists>lg w'. retrieve_by_l2_distance R query 0 md w = ((Inr [], lg), w')"
  using retrieve_by_l2_distance_outcome [of R query 0 md w]
  by (auto simp: slice_to_zero)

lemma hybrid_search_zero:
  "\<exists>lg w'. hybrid_search set_iter R query 0 cw lw w = ((Inr [], lg), w')"
proof -
  obtain cr lg1 w1 where c: "retrieve_similar_chunks R query (0 * 2) 0 w = ((Inr cr, lg1), w1)"
    using retrieve_similar_chunks_returns [of R query "0 * 2" 0 w] by auto
  obtain lr lg2 w2 where l: "retrieve_by_l2_distance R query (0 * 2) Infinity w1 = ((Inr lr, lg2), w2)"
    using retrieve_by_l2_distance_returns [of R query "0 * 2" Infinity w1] by auto
  show ?thesis
    using hybrid_search_unfold [OF c l, of set_iter cw lw] by (simp add: slice_to_zero)
qed

lemma similar_chunks_empty_store:
  assumes "\<forall>w. fst (db_get_all_chunks R w) = Inr []"
  shows "\<exists>lg w'. retrieve_similar_chunks R query k thr w = ((Inr [], lg), w')"
  using retrieve_similar_chunks_outcome [of R query k thr w]
proof (elim disjE exE conjE)
  fix q w1 cs w2 sims
  assume db: "db_get_all_chunks R w1 = (Inr cs, w2)"
    and sc: "score_chunks cosine_similarity q cs = Inr sims"
    and r: "retrieve_similar_chunks R query k thr w =
        ((Inr (slice_to k (filter (\<lambda>x. thr \<le> score_of x) (sort_desc sims))), []), w2)"
  from assms db have "cs = []"
    by (metis fst_conv sum.inject(2))
  with sc have "sims = []" by simp
  with r show ?thesis
    by (simp add: sort_desc_def slice_to_Nil)
qed auto

lemma l2_distance_empty_store:
  assumes "\<forall>w. fst (db_get_all_chunks R w) = Inr []"
  shows "\<exists>lg w'. retrieve_by_l2_distance R query k md w = ((Inr [], lg), w')"
  using retrieve_by_l2_distance_outcome [of R query k md w]
proof (elim disjE exE conjE)
  fix q w1 cs w2 ds
  assume db: "db_get_all_chunks R w1 = (Inr cs, w2)"
    and sc: "score_chunks l2_distance q cs = Inr ds"
    and r: "retrieve_by_l2_distance R query k md w =
        ((Inr (slice_to k (filter (\<lambda>x. le_bound (score_of x) md) (sort_asc ds))), []), w2)"
  from assms db have "cs = []"
    by (metis fst_conv sum.inject(2))
  with sc have "ds = []" by simp
  with r show ?thesis
    by (simp add: sort_asc_def slice_to_Nil)
qed auto

lemma hybrid_search_both_empty:
  assumes "retrieve_similar_chunks R query (k * 2) 0 w = ((Inr [], lg1), w1)"
    and "retrieve_by_l2_distance R query (k * 2) Infinity w1 = ((Inr [], lg2), w2)"
    and "set_iter {} = []"
  shows "hybrid_search set_iter R query k cw lw w = ((Inr [], lg1 @ lg2), w2)"
  using hybrid_search_unfold [OF assms(1,2), of set_iter cw lw] assms(3)
  by (simp add: sort_desc_def slice_to_Nil)

lemma hybrid_search_empty_store:
  assumes "\<forall>w. fst (db_get_all_chunks R w) = Inr []" and "set_iter {} = []"
  shows "\<exists>lg w'. hybrid_search set_iter R query k cw lw w = ((Inr [], lg), w')"
proof -
  obtain lg1 w1 where c: "retrieve_similar_chunks R query (k * 2) 0 w = ((Inr [], lg1), w1)"
    using similar_chunks_empty_store [OF assms(1), of query "k * 2" 0 w] by auto
  obtain lg2 w2 where l: "retrieve_by_l2_distance R query (k * 2) Infinity w1 = ((Inr [], lg2), w2)"
    using l2_distance_empty_store [OF assms(1), of query "k * 2" Infinity w1] by auto
  show ?thesis
    using hybrid_search_both_empty [OF c l, of set_iter cw lw] assms(2) by blast
qed

text \<open>
  C4, as amended. Each of the three retrieval operations returns the empty list when
  \<^verbatim>\<open>top_k\<close> is 0, and returns the empty list, raising nothing, when the store is empty
  (for \<^verbatim>\<open>hybrid_search\<close>: as iterating over an empty set yields nothing).
\<close>

theorem retrieval_empty_results:
  "(\<exists>lg w'. retrieve_similar_chunks R query 0 thr w = ((Inr [], lg), w')) \<and>
   (\<exists>lg w'. retrieve_by_l2_distance R query 0 md w = ((Inr [], lg), w')) \<and>
   (\<exists>lg w'. hybrid_search set_iter R query 0 cw lw w = ((Inr [], lg), w')) \<and>
   ((\<forall>w. fst (db_get_all_chunks R w) = Inr []) \<longrightarrow>
      (\<exists>lg w'. retrieve_similar_chunks R query top_k thr w = ((Inr [], lg), w')) \<and>
      (\<exists>lg w'. retrieve_by_l2_distance R query top_k md w = ((Inr [], lg), w')) \<and>
      (set_iter {} = [] \<longrightarrow>
         (\<exists>lg w'. hybrid_search set_iter R query top_k cw lw w = ((Inr [], lg), w'))))"
  using similar_chunks_zero [of R query thr w] l2_distance_zero [of R query md w]
    hybrid_search_zero [of set_iter R query cw lw w]
    similar_chunks_empty_store [of R query top_k thr w]
    l2_distance_empty_store [of R query top_k md w]
    hybrid_search_empty_store [of R set_iter query top_k cw lw w]
  by (intro conjI impI) assumption+

text \<open>An empty store, \<^verbatim>\<open>top_k = 5\<close>.\<close>

theorem retrieval_empty_results_witness:
  "fst (db_get_all_chunks (fixed_retriever [1, 0] []) ()) = Inr [] \<and>
   sorted_list_of_set ({} :: int set) = [] \<and>
   fst (fst (retrieve_similar_chunks (fixed_retriever [1, 0] []) ''q'' 5 (1 / 2) ())) = Inr [] \<and>
   fst (fst (retrieve_by_l2_distance (fixed_retriever [1, 0] []) ''q'' 5 (Finite 2) ())) = Inr [] \<and>
   fst (fst (hybrid_search sorted_list_of_set (fixed_retriever [1, 0] []) ''q'' 5
               (1 / 2) (1 / 2) ())) = Inr []"
proof -
  let ?R = "fixed_retriever [1, 0] []"
  have empty: "\<forall>w. fst (db_get_all_chunks ?R w) = Inr []"
    by (simp add: fixed_retriever_def)
  have it: "sorted_list_of_set ({} :: int set) = []"
    by simp
  note r = retrieval_empty_results
    [of ?R "''q''" "1 / 2" "()" "Finite 2" sorted_list_of_set "1 / 2" "1 / 2" 5]
  from r empty have "\<exists>lg w'. retrieve_similar_chunks ?R ''q'' 5 (1 / 2) () = ((Inr [], lg), w')"
    and "\<exists>lg w'. retrieve_by_l2_distance ?R ''q'' 5 (Finite 2) () = ((Inr [], lg), w')"
    by blast+
  moreover from r empty it
  have "\<exists>lg w'. hybrid_search sorted_list_of_set ?R ''q'' 5 (1 / 2) (1 / 2) () =
          ((Inr [], lg), w')"
    by blast
  ultimately have "fst (fst (retrieve_similar_chunks ?R ''q'' 5 (1 / 2) ())) = Inr []"
    and "fst (fst (retrieve_by_l2_distance ?R ''q'' 5 (Finite 2) ())) = Inr []"
    and "fst (fst (hybrid_search sorted_list_of_set ?R ''q'' 5 (1 / 2) (1 / 2) ())) = Inr []"
    by auto
  with empty it show ?thesis by simp
qed

lemma four_chunks_sliced:
  "retrieve_similar_chunks
     (fixed_retriever [1, 0]
        [(1, ''a'', [1, 0]), (2, ''b'', [1, 0]), (3, ''c'', [1, 0]), (4, ''d'', [1, 0])])
     ''q'' (- 1 * 2) 0 () = ((Inr [(1, ''a'', 1), (2, ''b'', 1)], []), ())"
  "retrieve_by_l2_distance
     (fixed_retriever [1, 0]
        [(1, ''a'', [1, 0]), (2, ''b'', [1, 0]), (3, ''c'', [1, 0]), (4, ''d'', [1, 0])])
     ''q'' (- 1 * 2) Infinity () = ((Inr [(1, ''a'', 0), (2, ''b'', 0)], []), ())"
  by (simp_all add: retrieve_similar_chunks_def similar_chunks_try_def
        retrieve_by_l2_distance_def l2_distance_try_def fixed_retriever_def
        cosine_examples l2_examples sort_desc_def sort_asc_def score_of_def slice_to_def)

text \<open>
  The claim as first stated fails for a negative \<^verbatim>\<open>top_k\<close>: with four stored chunks
  and \<^verbatim>\<open>top_k = -1\<close> the slices \<^verbatim>\<open>[:-1]\<close> and \<^verbatim>\<open>[:-2]\<close> keep entries, and all three
  operations return a list that is not empty.
\<close>

theorem negative_top_k_counterexample:
  "(- 1 :: int) \<le> 0 \<and>
   retrieve_similar_chunks
     (fixed_retriever [1, 0]
        [(1, ''a'', [1, 0]), (2, ''b'', [1, 0]), (3, ''c'', [1, 0]), (4, ''d'', [1, 0])])
     ''q'' (- 1) 0 () = ((Inr [(1, ''a'', 1), (2, ''b'', 1), (3, ''c'', 1)], []), ()) \<and>
   retrieve_by_l2_distance
     (fixed_retriever [1, 0]
        [(1, ''a'', [1, 0]), (2, ''b'', [1, 0]), (3, ''c'', [1, 0]), (4, ''d'', [1, 0])])
     ''q'' (- 1) (Finite 2) () = ((Inr [(1, ''a'', 0), (2, ''b'', 0), (3, ''c'', 0)], []), ()) \<and>
   hybrid_search sorted_list_of_set
     (fixed_retriever [1, 0]
        [(1, ''a'', [1, 0]), (2, ''b'', [1, 0]), (3, ''c'', [1, 0]), (4, ''d'', [1, 0])])
     ''q'' (- 1) (1 / 2) (1 / 2) () = ((Inr [(1, ''a'', 1)], []), ())"
proof -
  let ?R = "fixed_retriever [1, 0]
        [(1, ''a'', [1, 0]), (2, ''b'', [1, 0]), (3, ''c'', [1, 0]), (4, ''d'', [1, 0])]"
  have "retrieve_similar_chunks ?R ''q'' (- 1) 0 () =
          ((Inr [(1, ''a'', 1), (2, ''b'', 1), (3, ''c'', 1)], []), ())"
    and "retrieve_by_l2_distance ?R ''q'' (- 1) (Finite 2) () =
          ((Inr [(1, ''a'', 0), (2, ''b'', 0), (3, ''c'', 0)], []), ())"
    by (simp_all add: retrieve_similar_chunks_def similar_chunks_try_def
        retrieve_by_l2_distance_def l2_distance_try_def fixed_retriever_def
        cosine_examples l2_examples sort_desc_def sort_asc_def score_of_def slice_to_def)
  moreover have "hybrid_search sorted_list_of_set ?R ''q'' (- 1) (1 / 2) (1 / 2) () =
          ((Inr [(1, ''a'', 1)], []), ())"
    using hybrid_search_unfold [OF four_chunks_sliced, of sorted_list_of_set "1 / 2" "1 / 2"]
    by (simp add: combine_def score_dict_def first_text_def sort_desc_def score_of_def
          slice_to_def insert_Diff_if insert_absorb)
  ultimately show ?thesis by simp
qed

section \<open>Failures of the embedder and of the store\<close>





section \<open>Hybrid search with the cosine weight alone\<close>


















end
